theory Spec2Isabelle
  imports Main
begin

section \<open>Session handling of the developer portal\<close>

text \<open>
  The source file holds two modules: the navigation bar component (\<open>NavBar\<close>) and the
  session service it imports (\<open>services/self\<close>): \<open>isAuthenticated\<close>, \<open>isRegistered\<close>,
  \<open>isAdmin\<close>, \<open>refreshActivity\<close>, \<open>logoutInactive\<close>, \<open>init\<close>, \<open>login\<close>,
  \<open>setCredentials\<close> and \<open>logout\<close>. The module-level variables, the store, the browser's
  storage, its timer table and the calls that leave the module are one explicit state,
  passed through every operation.
\<close>

subsection \<open>Values\<close>

text \<open>
  Errors are values. \<open>InvalidTokenError\<close> is what the token decoder throws, \<open>AwsError\<close> is
  the error object the credentials provider hands to the refresh callback.
\<close>

datatype error = InvalidTokenError string | AwsError string

text \<open>
  The two claims of a decoded token that the code reads: \<open>exp\<close> (epoch seconds) and
  \<open>cognito:preferred_role\<close>. Either may be missing from the payload. Numbers are
  modelled as integers.
\<close>

record claims =
  claim_exp :: "int option"
  claim_preferred_role :: "string option"

text \<open>The argument of \<open>new AWS.CognitoIdentityCredentials(params)\<close>.\<close>

record cognitoParams =
  IdentityPoolId :: string
  Logins :: "(string \<times> string option) list"
  RoleArn :: "string option"

text \<open>
  Calls that leave the module, in the order they happen. \<open>Navigate\<close> is an assignment to
  \<open>window.location\<close>; \<open>CredentialsRefresh\<close> is the credentials exchange
  (\<open>AWS.config.credentials.refresh\<close>) started by \<open>setCredentials\<close>.
\<close>

datatype effect =
    InitApiGatewayClient bool
  | CredentialsRefresh cognitoParams
  | UpdateAllUserData
  | PostSignin
  | ConsoleError error
  | Navigate string
  | SetTimeout nat int
  | ClearTimeout nat
  | RequestAnimationFrame

text \<open>How a promise stands: not settled, resolved with a value, or rejected.\<close>

datatype 'a promise = Pending | Resolved 'a | Rejected error

text \<open>How a synchronous call ends: it returns, or an exception leaves it.\<close>

datatype outcome = Returned | Threw error

subsection \<open>Configuration and state\<close>

text \<open>
  The imported configuration (\<open>services/api\<close>, \<open>window.config\<close>, \<open>window.location\<close>) and
  the imported decoder \<open>jwt-decode\<close>, which is not part of this repository and is taken
  as a parameter: it returns the claims or throws.
\<close>

record env =
  cognitoDomain :: "string option"
  cognitoClientId :: string
  cognitoIdentityPoolId :: string
  cognitoUserPoolId :: string
  cognitoRegion :: string
  clientSessionTimeout :: int
  locationProtocol :: string
  locationHost :: string
  jwtDecode :: "string \<Rightarrow> error + claims"

text \<open>
  \<open>idToken\<close> is \<open>store.idToken\<close>; \<open>localStorage\<close> is \<open>window.localStorage\<close>;
  \<open>hasReset\<close> and \<open>inactivityTimeout\<close> are the module's two variables (\<open>undefined\<close> and
  \<open>null\<close> are both \<open>None\<close>). \<open>timers\<close> is the browser's table of pending timeouts,
  \<open>nextHandle\<close> the handle the next \<open>setTimeout\<close> returns, \<open>frameCallbacks\<close> the number
  of callbacks queued by \<open>requestAnimationFrame\<close>.
\<close>

record state =
  idToken :: "string option"
  localStorage :: "string \<rightharpoonup> string"
  hasReset :: bool
  inactivityTimeout :: "nat option"
  timers :: "nat list"
  nextHandle :: nat
  frameCallbacks :: nat
  effects :: "effect list"

text \<open>The state of a freshly loaded page over a given storage. Timer handles start at 1.\<close>

definition freshPage :: "(string \<rightharpoonup> string) \<Rightarrow> state" where
  "freshPage st = \<lparr> idToken = None, localStorage = st, hasReset = False,
     inactivityTimeout = None, timers = [], nextHandle = 1, frameCallbacks = 0,
     effects = [] \<rparr>"

text \<open>JavaScript truthiness of a value that is a string or absent, and of a timer handle.\<close>

definition truthy :: "string option \<Rightarrow> bool" where
  "truthy v = (case v of None \<Rightarrow> False | Some str \<Rightarrow> str \<noteq> [])"

definition truthyHandle :: "nat option \<Rightarrow> bool" where
  "truthyHandle v = (case v of None \<Rightarrow> False | Some h \<Rightarrow> h \<noteq> 0)"

subsection \<open>Browser primitives\<close>

definition log_effect :: "effect \<Rightarrow> state \<Rightarrow> state" where
  "log_effect e s = s\<lparr>effects := effects s @ [e]\<rparr>"

definition setTimeout :: "int \<Rightarrow> state \<Rightarrow> nat \<times> state" where
  "setTimeout delay s =
     (let h = nextHandle s
      in (h, s\<lparr>timers := timers s @ [h], nextHandle := Suc h,
                effects := effects s @ [SetTimeout h delay]\<rparr>))"

definition clearTimeout :: "nat option \<Rightarrow> state \<Rightarrow> state" where
  "clearTimeout v s =
     (case v of
        None \<Rightarrow> s
      | Some h \<Rightarrow> s\<lparr>timers := removeAll h (timers s),
                     effects := effects s @ [ClearTimeout h]\<rparr>)"

definition requestAnimationFrame :: "state \<Rightarrow> state" where
  "requestAnimationFrame s =
     s\<lparr>frameCallbacks := Suc (frameCallbacks s),
       effects := effects s @ [RequestAnimationFrame]\<rparr>"

text \<open>
  The next animation frame runs the queued callbacks; each is
  \<open>() => { hasReset = false }\<close>.
\<close>

definition animationFrame :: "state \<Rightarrow> state" where
  "animationFrame s =
     (if frameCallbacks s = 0 then s
      else s\<lparr>hasReset := False, frameCallbacks := 0\<rparr>)"

subsection \<open>Strings\<close>

text \<open>\<open>String.prototype.split\<close> with a one-character separator: never an empty array.\<close>

fun split_js :: "char \<Rightarrow> string \<Rightarrow> string list" where
  "split_js c [] = [[]]"
| "split_js c (x # xs) =
     (if x = c then [] # split_js c xs
      else (case split_js c xs of
              [] \<Rightarrow> [[x]]
            | w # ws \<Rightarrow> (x # w) # ws))"

text \<open>\<open>String.prototype.includes\<close>.\<close>

fun includes_js :: "string \<Rightarrow> string \<Rightarrow> bool" where
  "includes_js [] m = (m = [])"
| "includes_js (x # xs) m = (take (length m) (x # xs) = m \<or> includes_js xs m)"

text \<open>\<open>.replace(/^#/, '')\<close>.\<close>

definition stripHash :: "string \<Rightarrow> string" where
  "stripHash h =
     (case h of
        [] \<Rightarrow> []
      | c # r \<Rightarrow> if c = CHR ''#'' then r else h)"

subsection \<open>Store\<close>

text \<open>
  Modelled from the spec: \<open>store.resetUserData\<close> of \<open>services/state\<close> is not in the
  source given; the spec says it clears the token and any other cached user-derived
  data. Of the store only the token is state here.
\<close>

definition resetUserData :: "state \<Rightarrow> state" where
  "resetUserData s = s\<lparr>idToken := None\<rparr>"

subsection \<open>Role predicates\<close>

definition isAuthenticated :: "state \<Rightarrow> string option" where
  "isAuthenticated s = idToken s"

text \<open>\<open>jwtDecode(store.idToken)\<close>: the decoder throws on a value that is not a string.\<close>

definition decodeStoreToken :: "env \<Rightarrow> state \<Rightarrow> error + claims" where
  "decodeStoreToken env s =
     (case idToken s of
        None \<Rightarrow> Inl (InvalidTokenError ''Invalid token specified'')
      | Some t \<Rightarrow> jwtDecode env t)"

definition getPreferredRole :: "env \<Rightarrow> state \<Rightarrow> error + string" where
  "getPreferredRole env s =
     (case decodeStoreToken env s of
        Inl e \<Rightarrow> Inl e
      | Inr c \<Rightarrow> Inr (if truthy (claim_preferred_role c)
                      then (case claim_preferred_role c of Some r \<Rightarrow> r | None \<Rightarrow> [])
                      else []))"

definition isRegistered :: "env \<Rightarrow> state \<Rightarrow> error + bool" where
  "isRegistered env s =
     (if \<not> truthy (idToken s) then Inr False
      else (case getPreferredRole env s of
              Inl e \<Rightarrow> Inl e
            | Inr role \<Rightarrow> Inr (includes_js role ''-CognitoAdminRole-'' \<or>
                              includes_js role ''-CognitoRegisteredRole-'')))"

text \<open>The result of \<open>isAdmin\<close> is read for its truthiness only.\<close>

definition isAdmin :: "env \<Rightarrow> state \<Rightarrow> error + bool" where
  "isAdmin env s =
     (if \<not> truthy (idToken s) then Inr False
      else (case getPreferredRole env s of
              Inl e \<Rightarrow> Inl e
            | Inr role \<Rightarrow> Inr (includes_js role ''-CognitoAdminRole-'')))"

subsection \<open>Navigation bar\<close>

datatype menuItem = AdminPanel | MyDashboard | SignOut | SignIn | Register

text \<open>\<open>NavBar.insertAuthMenu\<close>: the items of the right-hand menu.\<close>

definition insertAuthMenu :: "env \<Rightarrow> state \<Rightarrow> error + menuItem list" where
  "insertAuthMenu env s =
     (if truthy (isAuthenticated s)
      then (case isAdmin env s of
              Inl e \<Rightarrow> Inl e
            | Inr a \<Rightarrow> Inr ((if a then [AdminPanel] else []) @ [MyDashboard, SignOut]))
      else Inr [SignIn, Register])"

subsection \<open>Redirect addresses\<close>

definition getLoginRedirectUrl :: "env \<Rightarrow> string" where
  "getLoginRedirectUrl env =
     locationProtocol env @ ''//'' @ locationHost env @ ''/index.html?action=login''"

definition getLogoutRedirectUrl :: "env \<Rightarrow> string" where
  "getLogoutRedirectUrl env =
     locationProtocol env @ ''//'' @ locationHost env @ ''/index.html?action=logout''"

definition getInactiveLogoutRedirectUrl :: "env \<Rightarrow> string" where
  "getInactiveLogoutRedirectUrl env =
     locationProtocol env @ ''//'' @ locationHost env
       @ ''/index.html?action=logout&reason=inactive''"

definition logoutAddress :: "env \<Rightarrow> string \<Rightarrow> string \<Rightarrow> string" where
  "logoutAddress env domain redirectUrl =
     domain @ ''/logout?client_id='' @ cognitoClientId env @ ''&logout_uri='' @ redirectUrl"

subsection \<open>Logout\<close>

definition logout :: "env \<Rightarrow> state \<Rightarrow> state" where
  "logout env s =
     (if truthy (idToken s) then
        (let s1 = resetUserData s;
             s2 = s1\<lparr>localStorage := Map.empty\<rparr>
         in if truthy (cognitoDomain env)
            then (case cognitoDomain env of
                    None \<Rightarrow> s2
                  | Some d \<Rightarrow>
                      log_effect (Navigate (logoutAddress env d (getLogoutRedirectUrl env))) s2)
            else s2)
      else s)"

definition logoutInactive :: "env \<Rightarrow> state \<Rightarrow> state" where
  "logoutInactive env s =
     (if \<not> truthyHandle (inactivityTimeout s) \<or> hasReset s then s
      else
        (let s0 = s\<lparr>inactivityTimeout := None\<rparr>
         in if truthy (idToken s0) then
              (let s1 = resetUserData s0;
                   s2 = s1\<lparr>localStorage := Map.empty\<rparr>
               in if truthy (cognitoDomain env)
                  then (case cognitoDomain env of
                          None \<Rightarrow> s2
                        | Some d \<Rightarrow>
                            log_effect (Navigate (logoutAddress env d
                              (getInactiveLogoutRedirectUrl env))) s2)
                  else s2)
            else s0))"

text \<open>A pending timeout comes due: the browser drops it from its table and runs the handler.\<close>

definition timerFires :: "env \<Rightarrow> nat \<Rightarrow> state \<Rightarrow> state" where
  "timerFires env h s =
     (if h \<in> set (timers s)
      then logoutInactive env (s\<lparr>timers := removeAll h (timers s)\<rparr>)
      else s)"

subsection \<open>Activity\<close>

definition refreshActivity :: "env \<Rightarrow> state \<Rightarrow> state" where
  "refreshActivity env s =
     (if truthyHandle (inactivityTimeout s) \<and> \<not> hasReset s then
        (let s1 = s\<lparr>hasReset := True\<rparr>;
             s2 = requestAnimationFrame s1;
             s3 = clearTimeout (inactivityTimeout s2) s2;
             (h, s4) = setTimeout (clientSessionTimeout env) s3
         in s4\<lparr>inactivityTimeout := Some h\<rparr>)
      else s)"

subsection \<open>Credentials\<close>

text \<open>
  The synchronous part of \<open>setCredentials\<close>: it schedules the inactivity deadline, decodes
  the token (which may throw), builds the parameters and starts the exchange. The promise
  it returns is settled by the callback of the exchange, \<open>refreshCallback\<close> below.
\<close>

definition setCredentials :: "env \<Rightarrow> state \<Rightarrow> outcome \<times> state" where
  "setCredentials env s =
     (let (h, s1) = setTimeout (clientSessionTimeout env) s;
          s2 = s1\<lparr>inactivityTimeout := Some h\<rparr>
      in case decodeStoreToken env s2 of
           Inl e \<Rightarrow> (Threw e, s2)
         | Inr c \<Rightarrow>
             (let preferredRole = claim_preferred_role c;
                  params = \<lparr> IdentityPoolId = cognitoIdentityPoolId env,
                             Logins = [(''cognito-idp.'' @ cognitoRegion env
                                          @ ''.amazonaws.com/'' @ cognitoUserPoolId env,
                                        idToken s2)],
                             RoleArn = (if truthy preferredRole then preferredRole else None) \<rparr>
              in (Returned, log_effect (CredentialsRefresh params) s2)))"

text \<open>
  The callback given to \<open>AWS.config.credentials.refresh\<close>, with the error the provider
  reports or none, and how it leaves the promise of \<open>setCredentials\<close>.
\<close>

definition refreshCallback :: "error option \<Rightarrow> state \<Rightarrow> unit promise \<times> state" where
  "refreshCallback err s =
     (case err of
        Some e \<Rightarrow> (Rejected e, log_effect (ConsoleError e) s)
      | None \<Rightarrow>
          (Pending,
           log_effect PostSignin
             (log_effect UpdateAllUserData (log_effect (InitApiGatewayClient True) s))))"

subsection \<open>Restoring and starting a session\<close>

text \<open>
  The \<open>try\<close> block of \<open>init\<close>: the stored token, whether it is valid at the time \<open>now\<close>
  (milliseconds), and the error caught, which is logged.
\<close>

definition storedTokenValid :: "env \<Rightarrow> int \<Rightarrow> string option \<Rightarrow> bool \<times> error option" where
  "storedTokenValid env now tok =
     (case tok of
        None \<Rightarrow> (False, None)
      | Some t \<Rightarrow>
          if t = [] then (False, None)
          else (case jwtDecode env t of
                  Inl e \<Rightarrow> (False, Some e)
                | Inr parsedToken \<Rightarrow>
                    (case claim_exp parsedToken of
                       None \<Rightarrow> (False, None)
                     | Some e \<Rightarrow> (e * 1000 > now, None))))"

definition init :: "env \<Rightarrow> int \<Rightarrow> state \<Rightarrow> outcome \<times> state" where
  "init env now s =
     (let s0 = log_effect (InitApiGatewayClient False) s;
          tok = localStorage s0 (cognitoUserPoolId env);
          (valid, caught) = storedTokenValid env now tok;
          s1 = (case caught of None \<Rightarrow> s0 | Some e \<Rightarrow> log_effect (ConsoleError e) s0)
      in if valid then setCredentials env (s1\<lparr>idToken := tok\<rparr>)
         else (Returned, logout env s1))"

text \<open>The \<open>forEach\<close> of \<open>login\<close> over the parameters: the last \<open>id_token\<close> wins.\<close>

definition recordParam :: "string option \<Rightarrow> string list \<Rightarrow> string option" where
  "recordParam acc param =
     (case param of
        [] \<Rightarrow> acc
      | k # vs \<Rightarrow>
          if k = ''id_token''
          then (case vs of [] \<Rightarrow> None | v # _ \<Rightarrow> Some v)
          else acc)"

definition parseIdToken :: "string \<Rightarrow> string option" where
  "parseIdToken hash =
     foldl recordParam None
       (map (split_js CHR ''='') (split_js CHR ''&'' (stripHash hash)))"

text \<open>
  \<open>login\<close> reads \<open>window.location.hash\<close>, here the argument. The executor of the promise
  runs at once; the result is how the promise stands when it is returned.
\<close>

definition login :: "env \<Rightarrow> string \<Rightarrow> state \<Rightarrow> string promise \<times> state" where
  "login env hash s =
     (case parseIdToken hash of
        None \<Rightarrow> (Pending, s)
      | Some t \<Rightarrow>
          if t = [] then (Pending, s)
          else
            (let s1 = s\<lparr>localStorage := (localStorage s)(cognitoUserPoolId env \<mapsto> t)\<rparr>;
                 s2 = s1\<lparr>idToken := Some t\<rparr>
             in case setCredentials env s2 of
                  (Threw e, s3) \<Rightarrow> (Rejected e, s3)
                | (Returned, s3) \<Rightarrow> (Resolved t, s3)))"

subsection \<open>A sample configuration\<close>

text \<open>
  A decoder for concrete runs: the token \<open>ABC\<close> carries the expiry 2000000000 and an
  administrator role, \<open>OLD\<close> the expiry 1 and no role, \<open>USR\<close> a registered role; anything
  else is malformed.
\<close>

definition sampleDecode :: "string \<Rightarrow> error + claims" where
  "sampleDecode t =
     (if t = ''ABC'' then
        Inr \<lparr> claim_exp = Some 2000000000,
              claim_preferred_role = Some ''arn:aws:iam::1:role/dp-CognitoAdminRole-X'' \<rparr>
      else if t = ''OLD'' then
        Inr \<lparr> claim_exp = Some 1, claim_preferred_role = None \<rparr>
      else if t = ''USR'' then
        Inr \<lparr> claim_exp = Some 2000000000,
              claim_preferred_role = Some ''arn:aws:iam::1:role/dp-CognitoRegisteredRole-Y'' \<rparr>
      else Inl (InvalidTokenError ''Invalid token specified''))"

definition sampleEnv :: "string option \<Rightarrow> env" where
  "sampleEnv domain =
     \<lparr> cognitoDomain = domain, cognitoClientId = ''client'',
       cognitoIdentityPoolId = ''pool'', cognitoUserPoolId = ''userpool'',
       cognitoRegion = ''us-east-1'', clientSessionTimeout = 3600000,
       locationProtocol = ''https:'', locationHost = ''portal.example'',
       jwtDecode = sampleDecode \<rparr>"

text \<open>The page after a login with the fragment \<open>#id_token=ABC\<close> on a fresh page.\<close>

definition signedInPage :: state where
  "signedInPage = snd (login (sampleEnv None) ''#id_token=ABC'' (freshPage Map.empty))"

text \<open>The page after a login with the fragment \<open>#id_token=OLD\<close>, a token without a role.\<close>

definition roleLessPage :: state where
  "roleLessPage = snd (login (sampleEnv None) ''#id_token=OLD'' (freshPage Map.empty))"

subsection \<open>Observations on the log of calls\<close>

fun isNavigate :: "effect \<Rightarrow> bool" where
  "isNavigate (Navigate u) = True"
| "isNavigate e = False"

fun isCredentialsRefresh :: "effect \<Rightarrow> bool" where
  "isCredentialsRefresh (CredentialsRefresh p) = True"
| "isCredentialsRefresh e = False"

section \<open>Properties\<close>

subsection \<open>The sample pages\<close>

lemma signedInPage_eq:
  "signedInPage =
     \<lparr> idToken = Some ''ABC'', localStorage = [''userpool'' \<mapsto> ''ABC''], hasReset = False,
       inactivityTimeout = Some 1, timers = [1], nextHandle = 2, frameCallbacks = 0,
       effects = [SetTimeout 1 3600000,
         CredentialsRefresh \<lparr> IdentityPoolId = ''pool'',
           Logins = [(''cognito-idp.us-east-1.amazonaws.com/userpool'', Some ''ABC'')],
           RoleArn = Some ''arn:aws:iam::1:role/dp-CognitoAdminRole-X'' \<rparr>] \<rparr>"
  by (simp add: signedInPage_def login_def parseIdToken_def stripHash_def recordParam_def
        setCredentials_def setTimeout_def decodeStoreToken_def log_effect_def freshPage_def
        sampleEnv_def sampleDecode_def truthy_def Let_def)

lemma roleLessPage_token: "idToken roleLessPage = Some ''OLD''"
  by (simp add: roleLessPage_def login_def parseIdToken_def stripHash_def recordParam_def
        setCredentials_def setTimeout_def decodeStoreToken_def log_effect_def freshPage_def
        sampleEnv_def sampleDecode_def truthy_def Let_def)

subsection \<open>Strings\<close>

lemma split_js_nonempty: "split_js c xs \<noteq> []"
  by (induction xs) (auto split: list.splits)

lemma split_js_no_sep: "c \<notin> set a \<Longrightarrow> split_js c a = [a]"
  by (induction a) auto

lemma split_js_append: "c \<notin> set a \<Longrightarrow> split_js c (a @ c # b) = a # split_js c b"
  by (induction a) auto

text \<open>\<open>includes_js\<close> is the substring test.\<close>

lemma includes_js_iff: "includes_js s m \<longleftrightarrow> (\<exists>p q. s = p @ m @ q)"
proof (induction s)
  case Nil
  then show ?case by auto
next
  case (Cons x xs)
  show ?case
  proof
    assume "includes_js (x # xs) m"
    then consider "take (length m) (x # xs) = m" | "includes_js xs m" by auto
    then show "\<exists>p q. x # xs = p @ m @ q"
    proof cases
      case 1
      then have "x # xs = [] @ m @ drop (length m) (x # xs)"
        by (metis append_Nil append_take_drop_id)
      then show ?thesis by blast
    next
      case 2
      then obtain p q where "xs = p @ m @ q" using Cons.IH by blast
      then have "x # xs = (x # p) @ m @ q" by simp
      then show ?thesis by blast
    qed
  next
    assume "\<exists>p q. x # xs = p @ m @ q"
    then obtain p q where pq: "x # xs = p @ m @ q" by blast
    show "includes_js (x # xs) m"
    proof (cases p)
      case Nil
      then have "take (length m) (x # xs) = m" using pq by simp
      then show ?thesis by simp
    next
      case (Cons y p')
      then have "xs = p' @ m @ q" using pq by simp
      then have "includes_js xs m" using Cons.IH by blast
      then show ?thesis by simp
    qed
  qed
qed

subsection \<open>Logout\<close>

lemma logout_clears_token: "\<not> truthy (idToken (logout env s))"
  by (auto simp: logout_def resetUserData_def log_effect_def truthy_def Let_def
           split: option.splits)

lemma logout_no_token: "\<not> truthy (idToken s) \<Longrightarrow> logout env s = s"
  by (simp add: logout_def)

lemma logout_navigations:
  "length (filter isNavigate (effects (logout env s)))
     \<le> Suc (length (filter isNavigate (effects s)))"
  by (auto simp: logout_def resetUserData_def log_effect_def Let_def split: option.splits)

lemma logout_no_refresh:
  "filter isCredentialsRefresh (effects (logout env s))
     = filter isCredentialsRefresh (effects s)"
  by (auto simp: logout_def resetUserData_def log_effect_def Let_def split: option.splits)

text \<open>
  C9. \<open>logout\<close> is idempotent from every state: a second call changes nothing, the token
  is absent afterwards, the two calls together navigate at most once, and a call without
  a token changes nothing at all.
\<close>

theorem logout_idempotent:
  "logout env (logout env s) = logout env s
   \<and> \<not> truthy (idToken (logout env s))
   \<and> length (filter isNavigate (effects (logout env (logout env s))))
       \<le> Suc (length (filter isNavigate (effects s)))
   \<and> (\<not> truthy (idToken s) \<longrightarrow> logout env s = s)"
  using logout_clears_token [of env s] logout_navigations [of env s]
  by (simp add: logout_no_token)

theorem logout_idempotent_witness:
  "\<not> truthy (idToken (freshPage Map.empty))
   \<and> logout (sampleEnv (Some ''https://idp'')) (freshPage Map.empty) = freshPage Map.empty
   \<and> logout (sampleEnv (Some ''https://idp'')) (logout (sampleEnv (Some ''https://idp'')) signedInPage)
       = logout (sampleEnv (Some ''https://idp'')) signedInPage
   \<and> length (filter isNavigate (effects
         (logout (sampleEnv (Some ''https://idp''))
           (logout (sampleEnv (Some ''https://idp'')) signedInPage)))) = 1"
proof -
  have n: "length (filter isNavigate (effects
         (logout (sampleEnv (Some ''https://idp'')) signedInPage))) = 1"
    by (simp add: signedInPage_eq logout_def resetUserData_def log_effect_def truthy_def
          sampleEnv_def Let_def)
  show ?thesis
    using logout_idempotent [of "sampleEnv (Some ''https://idp'')" "freshPage Map.empty"]
      logout_idempotent [of "sampleEnv (Some ''https://idp'')" signedInPage] n
    by (simp add: freshPage_def truthy_def)
qed

subsection \<open>Restoring a session\<close>

text \<open>
  C5. For a stored token that decodes with the expiry \<open>e\<close> (epoch seconds), \<open>init\<close> at
  the time \<open>now\<close> (milliseconds) treats it as expired exactly when \<open>e * 1000 \<le> now\<close>:
  then it takes the logout branch, otherwise it adopts the token and sets the
  credentials. Equality with \<open>now\<close> counts as expired.
\<close>

theorem token_expired_iff:
  assumes "t \<noteq> []" and "jwtDecode env t = Inr c" and "claim_exp c = Some e"
    and "localStorage s (cognitoUserPoolId env) = Some t"
  shows "(fst (storedTokenValid env now (Some t)) = (\<not> e * 1000 \<le> now))
    \<and> init env now s =
        (if e * 1000 \<le> now
         then (Returned, logout env (log_effect (InitApiGatewayClient False) s))
         else setCredentials env (log_effect (InitApiGatewayClient False) s\<lparr>idToken := Some t\<rparr>))"
  using assms
  by (auto simp: storedTokenValid_def init_def log_effect_def Let_def)

theorem token_expired_iff_witness:
  "fst (storedTokenValid (sampleEnv None) 1000 (Some ''OLD'')) = False
   \<and> fst (storedTokenValid (sampleEnv None) 999 (Some ''OLD'')) = True
   \<and> init (sampleEnv None) 1000 (freshPage [''userpool'' \<mapsto> ''OLD''])
       = (Returned, log_effect (InitApiGatewayClient False) (freshPage [''userpool'' \<mapsto> ''OLD'']))"
proof -
  have d: "jwtDecode (sampleEnv None) ''OLD'' = Inr \<lparr> claim_exp = Some 1, claim_preferred_role = None \<rparr>"
    by (simp add: sampleEnv_def sampleDecode_def)
  have l: "localStorage (freshPage [''userpool'' \<mapsto> ''OLD'']) (cognitoUserPoolId (sampleEnv None)) = Some ''OLD''"
    by (simp add: sampleEnv_def freshPage_def)
  have n: "\<not> truthy (idToken (log_effect (InitApiGatewayClient False) (freshPage [''userpool'' \<mapsto> ''OLD''])))"
    by (simp add: truthy_def log_effect_def freshPage_def)
  show ?thesis
    using token_expired_iff [OF _ d _ l, of 1 1000] token_expired_iff [OF _ d _ l, of 1 999]
      logout_no_token [OF n]
    by simp
qed

text \<open>
  C7. When the stored token cannot be decoded, or decodes with an expiry that has passed,
  \<open>init\<close> returns without an exception, the session is unauthenticated afterwards, and no
  credentials exchange has been started.
\<close>

theorem init_degrades:
  assumes "localStorage s (cognitoUserPoolId env) = Some t"
    and "jwtDecode env t = Inl err \<or> (jwtDecode env t = Inr c \<and> claim_exp c = Some e \<and> e * 1000 \<le> now)"
  shows "fst (init env now s) = Returned
    \<and> \<not> truthy (idToken (snd (init env now s)))
    \<and> filter isCredentialsRefresh (effects (snd (init env now s)))
        = filter isCredentialsRefresh (effects s)"
proof -
  have nv: "\<not> fst (storedTokenValid env now (Some t))"
    using assms(2) by (auto simp: storedTokenValid_def)
  obtain caught where sv: "storedTokenValid env now (Some t) = (False, caught)"
    using nv by (cases "storedTokenValid env now (Some t)") auto
  define s1 where "s1 = (case caught of None \<Rightarrow> log_effect (InitApiGatewayClient False) s
     | Some e \<Rightarrow> log_effect (ConsoleError e) (log_effect (InitApiGatewayClient False) s))"
  have i: "init env now s = (Returned, logout env s1)"
  proof -
    have "localStorage (log_effect (InitApiGatewayClient False) s) (cognitoUserPoolId env) = Some t"
      using assms(1) by (simp add: log_effect_def)
    then show ?thesis
      using sv by (simp add: init_def Let_def s1_def)
  qed
  have "filter isCredentialsRefresh (effects s1) = filter isCredentialsRefresh (effects s)"
    by (simp add: s1_def log_effect_def split: option.splits)
  then show ?thesis
    using i logout_clears_token [of env s1] logout_no_refresh [of env s1] by simp
qed

theorem init_degrades_witness:
  "fst (init (sampleEnv (Some ''https://idp'')) 1700000000000 (freshPage [''userpool'' \<mapsto> ''OLD''])) = Returned
   \<and> \<not> truthy (idToken (snd (init (sampleEnv (Some ''https://idp'')) 1700000000000
          (freshPage [''userpool'' \<mapsto> ''OLD'']))))
   \<and> filter isCredentialsRefresh (effects (snd (init (sampleEnv (Some ''https://idp'')) 1700000000000
          (freshPage [''userpool'' \<mapsto> ''OLD''])))) = []"
proof -
  have l: "localStorage (freshPage [''userpool'' \<mapsto> ''OLD''])
             (cognitoUserPoolId (sampleEnv (Some ''https://idp''))) = Some ''OLD''"
    by (simp add: sampleEnv_def freshPage_def)
  have d: "jwtDecode (sampleEnv (Some ''https://idp'')) ''OLD'' = Inl err
      \<or> (jwtDecode (sampleEnv (Some ''https://idp'')) ''OLD''
            = Inr \<lparr> claim_exp = Some 1, claim_preferred_role = None \<rparr>
         \<and> claim_exp \<lparr> claim_exp = Some 1, claim_preferred_role = None \<rparr> = Some 1
         \<and> (1::int) * 1000 \<le> 1700000000000)"
    by (simp add: sampleEnv_def sampleDecode_def)
  have e: "effects (freshPage [''userpool'' \<mapsto> ''OLD'']) = []"
    by (simp add: freshPage_def)
  show ?thesis
    using init_degrades [OF l d] e by simp
qed

subsection \<open>Failure of the credentials exchange\<close>

text \<open>
  C8. When the exchange reports an error, the promise of \<open>setCredentials\<close> is rejected with
  that error and the error is logged; nothing else changes: the token, the storage and
  the timers stay as they were, and no navigation takes place.
\<close>

theorem refresh_failure_frame:
  "fst (refreshCallback (Some e) s) = Rejected e
   \<and> effects (snd (refreshCallback (Some e) s)) = effects s @ [ConsoleError e]
   \<and> (snd (refreshCallback (Some e) s))\<lparr>effects := effects s\<rparr> = s
   \<and> idToken (snd (refreshCallback (Some e) s)) = idToken s"
  by (simp add: refreshCallback_def log_effect_def)

subsection \<open>Login without a token\<close>

text \<open>
  C2. At the fragment \<open>#access_token=ABC\<close> no \<open>id_token\<close> is found; \<open>login\<close> leaves the
  state as it was, and its promise is neither resolved nor rejected.
\<close>

theorem login_no_token:
  "parseIdToken ''#access_token=ABC'' = None
   \<and> login env ''#access_token=ABC'' s = (Pending, s)"
  by (simp add: login_def parseIdToken_def stripHash_def recordParam_def)

subsection \<open>Login and restoration\<close>

lemma parseIdToken_first:
  assumes "CHR ''&'' \<notin> set tok" and "CHR ''='' \<notin> set tok"
  shows "parseIdToken (''#id_token='' @ tok @ ''&other=x'') = Some tok"
proof -
  have a: "CHR ''&'' \<notin> set (''id_token='' @ tok)"
    using assms(1) by simp
  have "split_js CHR ''&'' ((''id_token='' @ tok) @ CHR ''&'' # ''other=x'')
          = (''id_token='' @ tok) # split_js CHR ''&'' ''other=x''"
    using a by (rule split_js_append)
  then have amp: "split_js CHR ''&'' (''id_token='' @ tok @ ''&other=x'')
          = [''id_token='' @ tok, ''other=x'']"
    by simp
  have "split_js CHR ''='' (''id_token'' @ CHR ''='' # tok) = ''id_token'' # split_js CHR ''='' tok"
    by (rule split_js_append) simp
  then have eq1: "split_js CHR ''='' (''id_token='' @ tok) = [''id_token'', tok]"
    using assms(2) by (simp add: split_js_no_sep)
  have eq2: "split_js CHR ''='' ''other=x'' = [''other'', ''x'']"
    by simp
  have "stripHash (''#id_token='' @ tok @ ''&other=x'') = ''id_token='' @ tok @ ''&other=x''"
    by (simp add: stripHash_def)
  then show ?thesis
    using amp eq1 eq2 by (simp add: parseIdToken_def recordParam_def)
qed

lemma setCredentials_decodable:
  assumes "idToken s = Some tok" and "jwtDecode env tok = Inr c"
  shows "fst (setCredentials env s) = Returned"
    and "idToken (snd (setCredentials env s)) = Some tok"
    and "localStorage (snd (setCredentials env s)) = localStorage s"
  using assms
  by (simp_all add: setCredentials_def setTimeout_def decodeStoreToken_def log_effect_def Let_def)

lemma login_with_token:
  assumes "parseIdToken hash = Some tok" and "tok \<noteq> []" and "jwtDecode env tok = Inr c"
  shows "fst (login env hash s) = Resolved tok"
    and "idToken (snd (login env hash s)) = Some tok"
    and "localStorage (snd (login env hash s)) = (localStorage s)(cognitoUserPoolId env \<mapsto> tok)"
proof -
  let ?s2 = "s\<lparr>localStorage := (localStorage s)(cognitoUserPoolId env \<mapsto> tok), idToken := Some tok\<rparr>"
  have i: "idToken ?s2 = Some tok" by simp
  obtain r s3 where sc: "setCredentials env ?s2 = (r, s3)"
    by (cases "setCredentials env ?s2")
  have r: "r = Returned" using setCredentials_decodable(1) [OF i assms(3)] sc by simp
  have l: "login env hash s = (Resolved tok, s3)"
    using assms(1,2) sc r by (simp add: login_def Let_def)
  show "fst (login env hash s) = Resolved tok" using l by simp
  show "idToken (snd (login env hash s)) = Some tok"
    using l setCredentials_decodable(2) [OF i assms(3)] sc by simp
  show "localStorage (snd (login env hash s)) = (localStorage s)(cognitoUserPoolId env \<mapsto> tok)"
    using l setCredentials_decodable(3) [OF i assms(3)] sc by simp
qed

lemma init_with_valid_token:
  assumes "localStorage s (cognitoUserPoolId env) = Some tok" and "tok \<noteq> []"
    and "jwtDecode env tok = Inr c" and "claim_exp c = Some e" and "now < e * 1000"
  shows "fst (init env now s) = Returned"
    and "idToken (snd (init env now s)) = Some tok"
proof -
  let ?s0 = "log_effect (InitApiGatewayClient False) s"
  have i: "init env now s = setCredentials env (?s0\<lparr>idToken := Some tok\<rparr>)"
    using assms by (simp add: init_def storedTokenValid_def log_effect_def Let_def)
  have t: "idToken (?s0\<lparr>idToken := Some tok\<rparr>) = Some tok" by simp
  show "fst (init env now s) = Returned"
    using i setCredentials_decodable(1) [OF t assms(3)] by simp
  show "idToken (snd (init env now s)) = Some tok"
    using i setCredentials_decodable(2) [OF t assms(3)] by simp
qed

text \<open>
  C3. For a fragment \<open>#id_token=T&other=x\<close> whose token \<open>T\<close> is not empty, contains
  neither \<open>&\<close> nor \<open>=\<close> and decodes with an expiry in the future: \<open>login\<close> resolves with
  \<open>T\<close>, sets \<open>store.idToken\<close> to \<open>T\<close> and stores \<open>T\<close> under the user-pool key; \<open>init\<close>
  after it, on the same page or on a fresh page over the same storage, returns with
  \<open>isAuthenticated\<close> giving \<open>T\<close>, a truthy value.
\<close>

theorem login_init_roundtrip:
  assumes "tok \<noteq> []" and "CHR ''&'' \<notin> set tok" and "CHR ''='' \<notin> set tok"
    and "jwtDecode env tok = Inr c" and "claim_exp c = Some e" and "now < e * 1000"
  shows "fst (login env (''#id_token='' @ tok @ ''&other=x'') s) = Resolved tok
    \<and> idToken (snd (login env (''#id_token='' @ tok @ ''&other=x'') s)) = Some tok
    \<and> localStorage (snd (login env (''#id_token='' @ tok @ ''&other=x'') s))
          (cognitoUserPoolId env) = Some tok
    \<and> fst (init env now (snd (login env (''#id_token='' @ tok @ ''&other=x'') s))) = Returned
    \<and> isAuthenticated (snd (init env now (snd (login env (''#id_token='' @ tok @ ''&other=x'') s))))
          = Some tok
    \<and> fst (init env now (freshPage (localStorage
          (snd (login env (''#id_token='' @ tok @ ''&other=x'') s))))) = Returned
    \<and> isAuthenticated (snd (init env now (freshPage (localStorage
          (snd (login env (''#id_token='' @ tok @ ''&other=x'') s)))))) = Some tok
    \<and> truthy (Some tok)"
proof -
  let ?s1 = "snd (login env (''#id_token='' @ tok @ ''&other=x'') s)"
  have p: "parseIdToken (''#id_token='' @ tok @ ''&other=x'') = Some tok"
    using assms(2,3) by (rule parseIdToken_first)
  note lg = login_with_token [OF p assms(1) assms(4), of s]
  have st: "localStorage ?s1 (cognitoUserPoolId env) = Some tok"
    using lg(3) by simp
  have st': "localStorage (freshPage (localStorage ?s1)) (cognitoUserPoolId env) = Some tok"
    using st by (simp add: freshPage_def)
  note i1 = init_with_valid_token [OF st assms(1) assms(4) assms(5) assms(6)]
  note i2 = init_with_valid_token [OF st' assms(1) assms(4) assms(5) assms(6)]
  show ?thesis
    using lg(1,2) st i1 i2 assms(1) by (simp add: isAuthenticated_def truthy_def)
qed

theorem login_init_roundtrip_witness:
  "fst (login (sampleEnv None) ''#id_token=ABC&other=x'' (freshPage Map.empty)) = Resolved ''ABC''
   \<and> idToken (snd (login (sampleEnv None) ''#id_token=ABC&other=x'' (freshPage Map.empty))) = Some ''ABC''
   \<and> isAuthenticated (snd (init (sampleEnv None) 1700000000000
        (freshPage (localStorage
          (snd (login (sampleEnv None) ''#id_token=ABC&other=x'' (freshPage Map.empty)))))))
      = Some ''ABC''"
proof -
  have d: "jwtDecode (sampleEnv None) ''ABC''
      = Inr \<lparr> claim_exp = Some 2000000000,
              claim_preferred_role = Some ''arn:aws:iam::1:role/dp-CognitoAdminRole-X'' \<rparr>"
    by (simp add: sampleEnv_def sampleDecode_def)
  have "''#id_token='' @ ''ABC'' @ ''&other=x'' = ''#id_token=ABC&other=x''" by simp
  then show ?thesis
    using login_init_roundtrip [OF _ _ _ d, of 2000000000 1700000000000 "freshPage Map.empty"]
    by simp
qed

subsection \<open>Activity signals\<close>

lemma refreshActivity_once:
  assumes "inactivityTimeout s = Some h" and "h \<noteq> 0" and "\<not> hasReset s"
  shows "refreshActivity env s =
     s\<lparr>hasReset := True, frameCallbacks := Suc (frameCallbacks s),
       timers := removeAll h (timers s) @ [nextHandle s],
       nextHandle := Suc (nextHandle s),
       effects := effects s @ [RequestAnimationFrame, ClearTimeout h,
                    SetTimeout (nextHandle s) (clientSessionTimeout env)],
       inactivityTimeout := Some (nextHandle s)\<rparr>"
  using assms
  by (simp add: refreshActivity_def truthyHandle_def requestAnimationFrame_def
        clearTimeout_def setTimeout_def Let_def)

lemma refreshActivity_closed: "hasReset s \<Longrightarrow> refreshActivity env s = s"
  by (simp add: refreshActivity_def)

lemma refreshActivity_burst:
  assumes "hasReset (refreshActivity env s)"
  shows "(refreshActivity env ^^ Suc n) s = refreshActivity env s"
proof (induction n)
  case 0
  show ?case by simp
next
  case (Suc n)
  have "(refreshActivity env ^^ Suc (Suc n)) s
          = refreshActivity env ((refreshActivity env ^^ Suc n) s)"
    by simp
  also have "\<dots> = refreshActivity env (refreshActivity env s)"
    using Suc.IH by simp
  also have "\<dots> = refreshActivity env s"
    using assms by (rule refreshActivity_closed)
  finally show ?case .
qed

text \<open>
  C4. With an inactivity handle set and the coalescing window open, \<open>N \<ge> 1\<close> activity
  signals before the next animation frame do what one signal does: one frame callback is
  queued, the old deadline is cancelled once and one new deadline is scheduled; the
  window is closed after them and open again after the next animation frame.
\<close>

theorem activity_coalesced:
  assumes "inactivityTimeout s = Some h" and "h \<noteq> 0" and "\<not> hasReset s" and "1 \<le> N"
  shows "(refreshActivity env ^^ N) s = refreshActivity env s
    \<and> effects ((refreshActivity env ^^ N) s)
        = effects s @ [RequestAnimationFrame, ClearTimeout h,
                       SetTimeout (nextHandle s) (clientSessionTimeout env)]
    \<and> timers ((refreshActivity env ^^ N) s) = removeAll h (timers s) @ [nextHandle s]
    \<and> inactivityTimeout ((refreshActivity env ^^ N) s) = Some (nextHandle s)
    \<and> hasReset ((refreshActivity env ^^ N) s)
    \<and> \<not> hasReset (animationFrame ((refreshActivity env ^^ N) s))"
proof -
  note once = refreshActivity_once [OF assms(1,2,3), of env]
  have closed: "hasReset (refreshActivity env s)"
    by (simp add: once)
  obtain n where N: "N = Suc n"
    using assms(4) by (cases N) auto
  have burst: "(refreshActivity env ^^ N) s = refreshActivity env s"
    unfolding N using closed by (rule refreshActivity_burst)
  have "\<not> hasReset (animationFrame (refreshActivity env s))"
    by (simp add: once animationFrame_def)
  then show ?thesis
    unfolding burst by (simp add: once)
qed

theorem activity_coalesced_witness:
  "effects ((refreshActivity (sampleEnv None) ^^ 3) signedInPage)
     = effects signedInPage @ [RequestAnimationFrame, ClearTimeout 1, SetTimeout 2 3600000]
   \<and> timers ((refreshActivity (sampleEnv None) ^^ 3) signedInPage) = [2]
   \<and> \<not> hasReset (animationFrame ((refreshActivity (sampleEnv None) ^^ 3) signedInPage))"
proof -
  note s = signedInPage_eq
  have a: "inactivityTimeout signedInPage = Some 1" by (simp add: s)
  have b: "\<not> hasReset signedInPage" by (simp add: s)
  have c: "nextHandle signedInPage = 2" "timers signedInPage = [1]"
    "clientSessionTimeout (sampleEnv None) = 3600000"
    by (simp_all add: s sampleEnv_def)
  have h: "(1::nat) \<noteq> 0" and n: "(1::nat) \<le> 3" by simp_all
  show ?thesis
    using activity_coalesced [OF a h b n, of "sampleEnv None", THEN conjunct2] c by simp
qed

subsection \<open>Role predicates\<close>

lemma getPreferredRole_decoded:
  "decodeStoreToken env s = Inr c \<Longrightarrow>
     getPreferredRole env s = Inr (case claim_preferred_role c of None \<Rightarrow> [] | Some r \<Rightarrow> r)"
  by (auto simp: getPreferredRole_def truthy_def split: option.splits)

text \<open>
  C6. In an authenticated session whose token decodes, \<open>isAdmin\<close> is true exactly when
  the preferred role (the empty string when the claim is absent or empty) contains
  \<open>-CognitoAdminRole-\<close>. With an absent or empty role \<open>isAdmin\<close> and \<open>isRegistered\<close> are
  false, and the menu built from \<open>isAuthenticated\<close> and \<open>isAdmin\<close> has no admin entry.
\<close>

theorem isAdmin_iff_marker:
  assumes "truthy (idToken s)" and "decodeStoreToken env s = Inr c"
  shows "isAdmin env s
           = Inr (\<exists>p q. (case claim_preferred_role c of None \<Rightarrow> [] | Some r \<Rightarrow> r)
                           = p @ ''-CognitoAdminRole-'' @ q)
    \<and> ((claim_preferred_role c = None \<or> claim_preferred_role c = Some []) \<longrightarrow>
          getPreferredRole env s = Inr []
          \<and> isAdmin env s = Inr False
          \<and> isRegistered env s = Inr False
          \<and> insertAuthMenu env s = Inr [MyDashboard, SignOut])"
proof -
  note role = getPreferredRole_decoded [OF assms(2)]
  have adm: "isAdmin env s
           = Inr (\<exists>p q. (case claim_preferred_role c of None \<Rightarrow> [] | Some r \<Rightarrow> r)
                           = p @ ''-CognitoAdminRole-'' @ q)"
    using assms(1) by (simp add: isAdmin_def role includes_js_iff)
  have empty: "getPreferredRole env s = Inr [] \<and> isAdmin env s = Inr False
      \<and> isRegistered env s = Inr False \<and> insertAuthMenu env s = Inr [MyDashboard, SignOut]"
    if "claim_preferred_role c = None \<or> claim_preferred_role c = Some []"
  proof -
    have r: "getPreferredRole env s = Inr []"
      using that role by auto
    have a: "isAdmin env s = Inr False"
      using assms(1) by (simp add: isAdmin_def r)
    have g: "isRegistered env s = Inr False"
      using assms(1) by (simp add: isRegistered_def r)
    have m: "insertAuthMenu env s = Inr [MyDashboard, SignOut]"
      using assms(1) by (simp add: insertAuthMenu_def isAuthenticated_def a)
    show ?thesis using r a g m by simp
  qed
  show ?thesis using adm empty by blast
qed

theorem isAdmin_iff_marker_witness:
  "isAdmin (sampleEnv None) roleLessPage = Inr False
   \<and> isRegistered (sampleEnv None) roleLessPage = Inr False
   \<and> insertAuthMenu (sampleEnv None) roleLessPage = Inr [MyDashboard, SignOut]
   \<and> truthy (isAuthenticated roleLessPage)"
proof -
  have t: "truthy (idToken roleLessPage)"
    by (simp add: roleLessPage_token truthy_def)
  have d: "decodeStoreToken (sampleEnv None) roleLessPage
             = Inr \<lparr> claim_exp = Some 1, claim_preferred_role = None \<rparr>"
    by (simp add: decodeStoreToken_def roleLessPage_token sampleEnv_def sampleDecode_def)
  show ?thesis
    using isAdmin_iff_marker [OF t d, THEN conjunct2] t by (simp add: isAuthenticated_def)
qed

text \<open>
  C10. Whenever \<open>isAdmin\<close> is true, \<open>isRegistered\<close> is true; and in an authenticated
  session whose preferred role contains \<open>-CognitoAdminRole-\<close> both are true.
\<close>

theorem admin_is_registered:
  "(isAdmin env s = Inr True \<longrightarrow> isRegistered env s = Inr True)
   \<and> (truthy (idToken s) \<and> decodeStoreToken env s = Inr c
        \<and> claim_preferred_role c = Some (p @ ''-CognitoAdminRole-'' @ q)
      \<longrightarrow> isAdmin env s = Inr True \<and> isRegistered env s = Inr True)"
proof -
  have imp: "isRegistered env s = Inr True" if "isAdmin env s = Inr True"
    using that by (auto simp: isAdmin_def isRegistered_def split: if_splits sum.splits)
  have adm: "isAdmin env s = Inr True"
    if "truthy (idToken s)" and "decodeStoreToken env s = Inr c"
      and "claim_preferred_role c = Some (p @ ''-CognitoAdminRole-'' @ q)"
  proof -
    have "getPreferredRole env s = Inr (p @ ''-CognitoAdminRole-'' @ q)"
      using getPreferredRole_decoded [OF that(2)] that(3) by simp
    moreover have "includes_js (p @ ''-CognitoAdminRole-'' @ q) ''-CognitoAdminRole-''"
      unfolding includes_js_iff by blast
    ultimately show ?thesis
      using that(1) by (simp add: isAdmin_def)
  qed
  show ?thesis using imp adm by blast
qed

theorem admin_is_registered_witness:
  "isAdmin (sampleEnv None) signedInPage = Inr True
   \<and> isRegistered (sampleEnv None) signedInPage = Inr True"
proof -
  have t: "truthy (idToken signedInPage)"
    by (simp add: signedInPage_eq truthy_def)
  have d: "decodeStoreToken (sampleEnv None) signedInPage
             = Inr \<lparr> claim_exp = Some 2000000000,
                 claim_preferred_role = Some ''arn:aws:iam::1:role/dp-CognitoAdminRole-X'' \<rparr>"
    by (simp add: decodeStoreToken_def signedInPage_eq sampleEnv_def sampleDecode_def)
  have r: "claim_preferred_role \<lparr> claim_exp = Some 2000000000,
                 claim_preferred_role = Some ''arn:aws:iam::1:role/dp-CognitoAdminRole-X'' \<rparr>
           = Some (''arn:aws:iam::1:role/dp'' @ ''-CognitoAdminRole-'' @ ''X'')"
    by simp
  show ?thesis
    using admin_is_registered [of "sampleEnv None" signedInPage
        "\<lparr> claim_exp = Some 2000000000,
           claim_preferred_role = Some ''arn:aws:iam::1:role/dp-CognitoAdminRole-X'' \<rparr>"
        "''arn:aws:iam::1:role/dp''" "''X''"] t d r
    by blast
qed

subsection \<open>The inactivity deadline across logout\<close>

text \<open>
  C1. On the page signed in with \<open>#id_token=ABC\<close>, with no identity-provider domain
  configured, one deadline is pending. After \<open>logout\<close> the session is unauthenticated and
  the same deadline is still pending, with the handle still held. A second login then
  leaves two deadlines pending, and when the first comes due it ends the new session.
\<close>

theorem logout_keeps_deadline:
  "truthy (idToken signedInPage)
   \<and> timers signedInPage = [1]
   \<and> \<not> truthy (idToken (logout (sampleEnv None) signedInPage))
   \<and> timers (logout (sampleEnv None) signedInPage) = [1]
   \<and> inactivityTimeout (logout (sampleEnv None) signedInPage) = Some 1
   \<and> timers (snd (login (sampleEnv None) ''#id_token=ABC''
        (logout (sampleEnv None) signedInPage))) = [1, 2]
   \<and> truthy (idToken (snd (login (sampleEnv None) ''#id_token=ABC''
        (logout (sampleEnv None) signedInPage))))
   \<and> \<not> truthy (idToken (timerFires (sampleEnv None) 1
        (snd (login (sampleEnv None) ''#id_token=ABC''
          (logout (sampleEnv None) signedInPage)))))"
  by (simp add: signedInPage_eq logout_def resetUserData_def timerFires_def logoutInactive_def
        login_def parseIdToken_def stripHash_def recordParam_def
        setCredentials_def setTimeout_def decodeStoreToken_def log_effect_def
        sampleEnv_def sampleDecode_def truthy_def truthyHandle_def Let_def)

end
